theory Spec2Isabelle
  imports Main
begin

section \<open>The store of the walk-through (\<open>createStore\<close>, lines 297-324)\<close>

text \<open>
  \<^verbatim>\<open>
  function createStore(reducer, initialState) {
    var state = initialState;
    var listeners = [];
    function dispatchAction(action) {
      state = reducer(state, action);
      listeners.forEach(function(listener) { listener(); })
    }
    function subscribe(callback) { listeners.push(callback); }
    function getState() { return state; }
    return { dispatchAction: dispatchAction, subscribe: subscribe, getState: getState };
  }
  \<close>
  The closure variables \<open>state\<close> and \<open>listeners\<close> are the fields of a record; the
  reducer, fixed when the store is made, is a third field that no operation writes.

  JavaScript code can throw and can act on the outside world (the console). Both are
  explicit: \<open>'w\<close> is the state of the world outside the store, \<open>'e\<close> the type of thrown
  values. A reducer call takes the world and gives the world after it together with
  either the thrown value (\<open>Inl\<close>) or the returned state (\<open>Inr\<close>).

  A listener is a value of type \<open>'l\<close>. What calling it does is given by a function
  \<open>call\<close>: the listener sees the store's state (through \<open>getState\<close>, as the listeners
  of the source do) and the world, and gives the world after it and the value it threw,
  if any. Listeners do not call \<open>dispatchAction\<close> or \<open>subscribe\<close> themselves.
\<close>

type_synonym ('s, 'a, 'w, 'e) reducer = "'s \<Rightarrow> 'a \<Rightarrow> 'w \<Rightarrow> 'w \<times> ('e + 's)"

type_synonym ('l, 's, 'w, 'e) call = "'l \<Rightarrow> 's \<Rightarrow> 'w \<Rightarrow> 'w \<times> 'e option"

record ('s, 'a, 'w, 'e, 'l) store =
  reducer :: "('s, 'a, 'w, 'e) reducer"
  state :: 's
  listeners :: "'l list"

definition createStore ::
  "('s, 'a, 'w, 'e) reducer \<Rightarrow> 's \<Rightarrow> ('s, 'a, 'w, 'e, 'l) store" where
  "createStore r initialState =
     \<lparr>reducer = r, state = initialState, listeners = []\<rparr>"

text \<open>
  \<open>xs.forEach(f)\<close>: \<open>f\<close> is applied to the elements from first to last; a throw ends
  the loop at once and leaves the effects made so far.
\<close>

fun forEach :: "'x list \<Rightarrow> ('x \<Rightarrow> 'w \<Rightarrow> 'w \<times> 'e option) \<Rightarrow> 'w \<Rightarrow> 'w \<times> 'e option" where
  "forEach [] f w = (w, None)"
| "forEach (x # xs) f w =
     (case f x w of
        (w', Some e) \<Rightarrow> (w', Some e)
      | (w', None) \<Rightarrow> forEach xs f w')"

text \<open>
  \<open>dispatchAction\<close> returns the store and the world after the call, and the value thrown
  out of it (\<open>None\<close> when it returns, with the value \<open>undefined\<close>). The assignment to
  \<open>state\<close> happens only when the reducer call has returned.
\<close>

definition dispatchAction ::
  "('l, 's, 'w, 'e) call \<Rightarrow> 'a \<Rightarrow> ('s, 'a, 'w, 'e, 'l) store \<times> 'w
     \<Rightarrow> (('s, 'a, 'w, 'e, 'l) store \<times> 'w) \<times> 'e option" where
  "dispatchAction call action sys =
     (case sys of (st, w) \<Rightarrow>
        (case reducer st (state st) action w of
           (w1, Inl e) \<Rightarrow> ((st, w1), Some e)
         | (w1, Inr newState) \<Rightarrow>
             (let st' = st\<lparr>state := newState\<rparr> in
              case forEach (listeners st') (\<lambda>listener. call listener (state st')) w1 of
                (w2, thrown) \<Rightarrow> ((st', w2), thrown))))"

definition subscribe :: "'l \<Rightarrow> ('s, 'a, 'w, 'e, 'l) store \<Rightarrow> ('s, 'a, 'w, 'e, 'l) store" where
  "subscribe callback st = st\<lparr>listeners := listeners st @ [callback]\<rparr>"

definition getState :: "('s, 'a, 'w, 'e, 'l) store \<Rightarrow> 's" where
  "getState st = state st"

subsection \<open>Sequences of calls on one store\<close>

text \<open>
  A caller's calls on the store, in order. A call that throws leaves the store as the
  throw left it, and the caller (who may catch the exception) goes on with the next call;
  a caller that stops at the exception has made a prefix of the sequence.
\<close>

datatype ('a, 'l) op = Dispatch 'a | Subscribe 'l | GetState

fun step ::
  "('l, 's, 'w, 'e) call \<Rightarrow> ('s, 'a, 'w, 'e, 'l) store \<times> 'w \<Rightarrow> ('a, 'l) op
     \<Rightarrow> ('s, 'a, 'w, 'e, 'l) store \<times> 'w" where
  "step call sys (Dispatch action) = fst (dispatchAction call action sys)"
| "step call (st, w) (Subscribe callback) = (subscribe callback st, w)"
| "step call (st, w) GetState = (st, w)"

definition run ::
  "('l, 's, 'w, 'e) call \<Rightarrow> ('a, 'l) op list \<Rightarrow> ('s, 'a, 'w, 'e, 'l) store \<times> 'w
     \<Rightarrow> ('s, 'a, 'w, 'e, 'l) store \<times> 'w" where
  "run call ops sys = foldl (step call) sys ops"

fun dispatched :: "('a, 'l) op list \<Rightarrow> 'a list" where
  "dispatched [] = []"
| "dispatched (Dispatch action # ops) = action # dispatched ops"
| "dispatched (_ # ops) = dispatched ops"

fun subscribed :: "('a, 'l) op list \<Rightarrow> 'l list" where
  "subscribed [] = []"
| "subscribed (Subscribe callback # ops) = callback # subscribed ops"
| "subscribed (_ # ops) = subscribed ops"

text \<open>
  A reducer that always returns: \<open>r\<close> computes the next state, \<open>eff\<close> is what the call
  does to the world (the counter's reducer logs the action).
\<close>

definition returning :: "('s \<Rightarrow> 'a \<Rightarrow> 's) \<Rightarrow> ('s \<Rightarrow> 'a \<Rightarrow> 'w \<Rightarrow> 'w) \<Rightarrow> ('s, 'a, 'w, 'e) reducer" where
  "returning r eff = (\<lambda>s a w. (eff s a w, Inr (r s a)))"

section \<open>The counter of the example (\<open>numberStore\<close>, lines 15-50)\<close>

text \<open>
  The counter's state is \<open>undefined\<close> (\<open>None\<close>) or a number. Numbers are modelled as the
  integers together with \<open>NaN\<close>; other kinds of values as the counter's state or as the
  amount of an action are outside the model. On these values \<open>+\<close> and \<open>-\<close> convert both
  operands to numbers (\<open>undefined\<close> becomes \<open>NaN\<close>) and \<open>NaN\<close> absorbs.
\<close>

datatype number = Num int | NaN

fun num_add :: "number \<Rightarrow> number \<Rightarrow> number" where
  "num_add (Num a) (Num b) = Num (a + b)"
| "num_add _ _ = NaN"

fun num_sub :: "number \<Rightarrow> number \<Rightarrow> number" where
  "num_sub (Num a) (Num b) = Num (a - b)"
| "num_sub _ _ = NaN"

definition to_number :: "number option \<Rightarrow> number" where
  "to_number v = (case v of None \<Rightarrow> NaN | Some n \<Rightarrow> n)"

definition js_add :: "number option \<Rightarrow> number option \<Rightarrow> number option" where
  "js_add a b = Some (num_add (to_number a) (to_number b))"

definition js_sub :: "number option \<Rightarrow> number option \<Rightarrow> number option" where
  "js_sub a b = Some (num_sub (to_number a) (to_number b))"

text \<open>An action of the counter: its \<open>type\<close> tag and the amount, \<open>undefined\<close> when absent.\<close>

record counter_action =
  type :: string
  incrementByThis :: "number option"

text \<open>
  The console of the example: one entry for each \<open>console.log\<close> call, with the value
  logged. The entry of a listener carries the listener, to tell the listeners apart.
\<close>

datatype 'l counter_log =
  Action_just_came_in counter_action
| My_state_just_changed 'l "number option"

text \<open>
  The function given to \<open>redux.createStore\<close> (lines 15-40). The redux library is not
  part of the repository; the claims below run this reducer on the store of the
  walk-through, which the text presents as the same mechanism.
\<close>

definition numberStore_reducer ::
  "(number option, counter_action, 'l counter_log list, 'e) reducer" where
  "numberStore_reducer state0 action console =
     (let console1 = console @ [Action_just_came_in action];
          state1 = (if state0 = None then Some (Num 0) else state0)
      in if type action = ''INCREMENT'' then (console1, Inr (js_add state1 (Some (Num 1))))
         else if type action = ''DECREMENT'' then (console1, Inr (js_sub state1 (Some (Num 1))))
         else if type action = ''INCREMENT_BY'' then
           (console1, Inr (js_add state1 (incrementByThis action)))
         else (console1, Inr state1))"

text \<open>The listener of lines 42-44 logs the state that \<open>getState\<close> returns.\<close>

definition numberStore_listener :: "('l, number option, 'l counter_log list, 'e) call" where
  "numberStore_listener l s console = (console @ [My_state_just_changed l s], None)"

text \<open>The three dispatches of lines 46-50.\<close>

definition numberStore_actions :: "counter_action list" where
  "numberStore_actions =
     [\<lparr>type = ''INCREMENT'', incrementByThis = None\<rparr>,
      \<lparr>type = ''INCREMENT_BY'', incrementByThis = Some (Num 3)\<rparr>,
      \<lparr>type = ''DECREMENT'', incrementByThis = None\<rparr>]"

section \<open>The reducer of the walk-through (\<open>myReducer\<close>, lines 326-339)\<close>

text \<open>
  The state and the actions of this reducer are JavaScript values: primitives, plain
  objects (their own properties, in insertion order) and functions (by reference).
\<close>

datatype jsval =
  JUndefined
| JNull
| JBool bool
| JNum number
| JStr string
| JObj "(string \<times> jsval) list"
| JFun nat

datatype js_error = TypeError | Thrown jsval

text \<open>
  \<open>v.key\<close>: reading a property of \<open>undefined\<close> or \<open>null\<close> throws a TypeError; an object
  gives its property, \<open>undefined\<close> when it has none of that name. The keys read below
  (\<open>type\<close>, \<open>name\<close>, \<open>age\<close>, \<open>incrementer\<close>, \<open>num\<close>) are not inherited from a prototype.
  Functions and primitives are taken to have no property (a function's own \<open>name\<close> and
  \<open>length\<close> are not modelled).
\<close>

fun get_prop :: "jsval \<Rightarrow> string \<Rightarrow> js_error + jsval" where
  "get_prop JUndefined key = Inl TypeError"
| "get_prop JNull key = Inl TypeError"
| "get_prop (JObj props) key = Inr (case map_of props key of None \<Rightarrow> JUndefined | Some v \<Rightarrow> v)"
| "get_prop _ key = Inr JUndefined"

text \<open>\<open>target[key] = v\<close>: an existing property keeps its place, a new one goes last.\<close>

fun set_prop :: "string \<Rightarrow> jsval \<Rightarrow> (string \<times> jsval) list \<Rightarrow> (string \<times> jsval) list" where
  "set_prop key v [] = [(key, v)]"
| "set_prop key v ((k, u) # props) =
     (if k = key then (key, v) # props else (k, u) # set_prop key v props)"

fun show_nat :: "nat \<Rightarrow> string" where
  "show_nat n =
     (if n < 10 then [char_of (48 + n)] else show_nat (n div 10) @ [char_of (48 + n mod 10)])"

declare show_nat.simps [simp del]

text \<open>
  The own enumerable properties that \<open>Object.assign\<close> copies from a source: those of an
  object, the characters of a string under their indices, none for other values.
\<close>

fun own_props :: "jsval \<Rightarrow> (string \<times> jsval) list" where
  "own_props (JObj props) = props"
| "own_props (JStr s) = map (\<lambda>i. (show_nat i, JStr [s ! i])) [0..<length s]"
| "own_props _ = []"

definition object_assign :: "(string \<times> jsval) list \<Rightarrow> jsval list \<Rightarrow> (string \<times> jsval) list" where
  "object_assign target sources =
     foldl (\<lambda>t source. foldl (\<lambda>t' (key, v). set_prop key v t') t (own_props source))
       target sources"

definition myReducer :: "jsval \<Rightarrow> jsval \<Rightarrow> js_error + jsval" where
  "myReducer oldState action =
     (case get_prop action ''type'' of
        Inl e \<Rightarrow> Inl e
      | Inr t \<Rightarrow>
          if t = JStr ''UPDATE_BIO'' then
            (case get_prop action ''name'' of
               Inl e \<Rightarrow> Inl e
             | Inr name \<Rightarrow>
                 (case get_prop action ''age'' of
                    Inl e \<Rightarrow> Inl e
                  | Inr age \<Rightarrow>
                      Inr (JObj (object_assign []
                        [oldState, JObj [(''name'', name), (''age'', age)]]))))
          else if t = JStr ''INCREMENT_NUM'' then
            (case get_prop action ''incrementer'' of
               Inl e \<Rightarrow> Inl e
             | Inr incrementer \<Rightarrow>
                 Inr (JObj (object_assign [] [oldState, JObj [(''num'', incrementer)]])))
          else Inr oldState)"

text \<open>A reducer without effect on the world, as a reducer of a store.\<close>

definition pure_reducer :: "('s \<Rightarrow> 'a \<Rightarrow> 'e + 's) \<Rightarrow> ('s, 'a, 'w, 'e) reducer" where
  "pure_reducer f = (\<lambda>s a w. (w, f s a))"

section \<open>The store as a JavaScript object (lines 319-324, 341-356)\<close>

text \<open>
  Calling a value as \<open>listener()\<close> does: a function runs (\<open>funs\<close> gives what each
  function does), any other value throws a TypeError.
\<close>

fun js_call ::
  "(nat \<Rightarrow> jsval \<Rightarrow> 'w \<Rightarrow> 'w \<times> js_error option) \<Rightarrow> (jsval, jsval, 'w, js_error) call" where
  "js_call funs (JFun f) s w = funs f s w"
| "js_call funs _ s w = (w, Some TypeError)"

text \<open>The object that \<open>createStore\<close> returns: its keys and the closure under each.\<close>

datatype member = Member_dispatchAction | Member_subscribe | Member_getState

definition store_object :: "(string \<times> member) list" where
  "store_object =
     [(''dispatchAction'', Member_dispatchAction),
      (''subscribe'', Member_subscribe),
      (''getState'', Member_getState)]"

text \<open>
  \<open>store.name(arg)\<close>: the property is looked up and called with the argument. A name
  that is not a key gives \<open>undefined\<close>, and calling \<open>undefined\<close> throws a TypeError.
  The result is the system after the call and the value thrown or returned.
\<close>

definition call_member ::
  "(nat \<Rightarrow> jsval \<Rightarrow> 'w \<Rightarrow> 'w \<times> js_error option) \<Rightarrow> string \<Rightarrow> jsval
     \<Rightarrow> (jsval, jsval, 'w, js_error, jsval) store \<times> 'w
     \<Rightarrow> ((jsval, jsval, 'w, js_error, jsval) store \<times> 'w) \<times> (js_error + jsval)" where
  "call_member funs name arg sys =
     (case map_of store_object name of
        None \<Rightarrow> (sys, Inl TypeError)
      | Some Member_dispatchAction \<Rightarrow>
          (case dispatchAction (js_call funs) arg sys of
             (sys', Some e) \<Rightarrow> (sys', Inl e)
           | (sys', None) \<Rightarrow> (sys', Inr JUndefined))
      | Some Member_subscribe \<Rightarrow> ((subscribe arg (fst sys), snd sys), Inr JUndefined)
      | Some Member_getState \<Rightarrow> (sys, Inr (getState (fst sys))))"

text \<open>
  The statements of the final example: \<open>store.name(arg);\<close> and
  \<open>console.log(store.name());\<close>. The world is the console, one entry (the list of
  arguments) for each \<open>console.log\<close>. An exception that nothing catches ends the script.
\<close>

datatype stmt = Call string jsval | Log_call string

fun exec ::
  "(nat \<Rightarrow> jsval \<Rightarrow> jsval list list \<Rightarrow> jsval list list \<times> js_error option) \<Rightarrow> stmt list
     \<Rightarrow> (jsval, jsval, jsval list list, js_error, jsval) store \<times> jsval list list
     \<Rightarrow> ((jsval, jsval, jsval list list, js_error, jsval) store \<times> jsval list list)
         \<times> js_error option" where
  "exec funs [] sys = (sys, None)"
| "exec funs (Call name arg # rest) sys =
     (case call_member funs name arg sys of
        (sys', Inl e) \<Rightarrow> (sys', Some e)
      | (sys', Inr v) \<Rightarrow> exec funs rest sys')"
| "exec funs (Log_call name # rest) sys =
     (case call_member funs name JUndefined sys of
        (sys', Inl e) \<Rightarrow> (sys', Some e)
      | ((st, console), Inr v) \<Rightarrow> exec funs rest (st, console @ [[v]]))"

text \<open>Lines 343-356. The function of line 346 is \<open>JFun 0\<close>.\<close>

definition walkthrough_funs ::
  "nat \<Rightarrow> jsval \<Rightarrow> jsval list list \<Rightarrow> jsval list list \<times> js_error option" where
  "walkthrough_funs f s console = (console @ [[JStr ''Our state just updated!'']], None)"

definition walkthrough_store ::
  "(jsval, jsval, jsval list list, js_error, jsval) store" where
  "walkthrough_store = createStore (pure_reducer myReducer) (JObj [])"

definition update_bio :: jsval where
  "update_bio =
     JObj [(''type'', JStr ''UPDATE_BIO''), (''name'', JStr ''Zak''), (''age'', JNum (Num 17))]"

definition increment_num :: jsval where
  "increment_num = JObj [(''type'', JStr ''INCREMENT_NUM''), (''incrementer'', JNum (Num 5))]"

definition walkthrough :: "stmt list" where
  "walkthrough =
     [Call ''subscribe'' (JFun 0),
      Call ''dispatch'' update_bio,
      Call ''dispatch'' increment_num,
      Log_call ''getState'']"

section \<open>Properties of the store\<close>

lemma dispatchAction_reducer:
  "reducer (fst (fst (dispatchAction call action (st, w)))) = reducer st"
  by (simp add: dispatchAction_def Let_def split: prod.splits sum.splits)

lemma dispatchAction_listeners:
  "listeners (fst (fst (dispatchAction call action (st, w)))) = listeners st"
  by (simp add: dispatchAction_def Let_def split: prod.splits sum.splits)

lemma dispatchAction_state:
  "state (fst (fst (dispatchAction call action (st, w)))) =
     (case snd (reducer st (state st) action w) of Inl e \<Rightarrow> state st | Inr s' \<Rightarrow> s')"
  by (simp add: dispatchAction_def Let_def split: prod.splits sum.splits)

lemma step_reducer: "reducer (fst (step call sys x)) = reducer (fst sys)"
  by (cases sys; cases x) (simp_all add: dispatchAction_reducer subscribe_def)

lemma step_listeners:
  "listeners (fst (step call sys x)) =
     (case x of Subscribe callback \<Rightarrow> listeners (fst sys) @ [callback] | _ \<Rightarrow> listeners (fst sys))"
  by (cases sys; cases x) (simp_all add: dispatchAction_listeners subscribe_def)

lemma step_state_returning:
  "reducer (fst sys) = returning r eff \<Longrightarrow>
   state (fst (step call sys x)) =
     (case x of Dispatch action \<Rightarrow> r (state (fst sys)) action | _ \<Rightarrow> state (fst sys))"
  by (cases sys; cases x) (simp_all add: dispatchAction_state returning_def subscribe_def)

lemma run_reducer: "reducer (fst (run call ops sys)) = reducer (fst sys)"
  unfolding run_def by (induction ops arbitrary: sys) (simp_all add: step_reducer)

lemma run_listeners:
  "listeners (fst (run call ops sys)) = listeners (fst sys) @ subscribed ops"
  unfolding run_def
proof (induction ops arbitrary: sys)
  case Nil
  show ?case by simp
next
  case (Cons x ops)
  have "listeners (fst (step call sys x)) = listeners (fst sys) @ subscribed [x]"
    using step_listeners [of call sys x] by (cases x) simp_all
  then show ?case by (cases x) (simp_all add: Cons.IH)
qed

lemma run_state_returning:
  "reducer (fst sys) = returning r eff \<Longrightarrow>
   state (fst (run call ops sys)) = foldl r (state (fst sys)) (dispatched ops)"
  unfolding run_def
proof (induction ops arbitrary: sys)
  case Nil
  show ?case by simp
next
  case (Cons x ops)
  have red: "reducer (fst (step call sys x)) = returning r eff"
    using Cons.prems by (simp add: step_reducer)
  have "state (fst (step call sys x)) = foldl r (state (fst sys)) (dispatched [x])"
    using step_state_returning [OF Cons.prems, of call x] by (cases x) simp_all
  then show ?case
    using Cons.IH [OF red] by (cases x) simp_all
qed

lemma run_append: "run call (xs @ ys) sys = run call ys (run call xs sys)"
  by (simp add: run_def)

lemma dispatched_map_Dispatch: "dispatched (map Dispatch as) = as"
  by (induction as) simp_all


lemma forEach_record: "forEach xs (\<lambda>x w'. (w' @ [g x], None)) w = (w @ map g xs, None)"
  by (induction xs arbitrary: w) simp_all

lemma dispatched_append: "dispatched (xs @ ys) = dispatched xs @ dispatched ys"
  by (induction xs rule: dispatched.induct) simp_all

lemma dispatched_map_Subscribe: "dispatched (map Subscribe ls) = []"
  by (induction ls) simp_all

lemma run_subscribes:
  "run call (map Subscribe ls) (st, w) = (st\<lparr>listeners := listeners st @ ls\<rparr>, w)"
  unfolding run_def by (induction ls arbitrary: st) (simp_all add: subscribe_def)

lemma step_state_pure:
  "reducer (fst sys) = pure_reducer f \<Longrightarrow>
   state (fst (step call sys x)) =
     (case x of
        Dispatch action \<Rightarrow>
          (case f (state (fst sys)) action of Inl e \<Rightarrow> state (fst sys) | Inr s' \<Rightarrow> s')
      | _ \<Rightarrow> state (fst sys))"
  by (cases sys; cases x)
    (simp_all add: dispatchAction_state pure_reducer_def subscribe_def split: sum.splits)

lemma run_state_pure:
  "reducer (fst sys) = pure_reducer f \<Longrightarrow>
   state (fst (run call ops sys)) =
     foldl (\<lambda>s a. case f s a of Inl e \<Rightarrow> s | Inr s' \<Rightarrow> s') (state (fst sys)) (dispatched ops)"
  unfolding run_def
proof (induction ops arbitrary: sys)
  case Nil
  show ?case by simp
next
  case (Cons x ops)
  have red: "reducer (fst (step call sys x)) = pure_reducer f"
    using Cons.prems by (simp add: step_reducer)
  have "state (fst (step call sys x)) =
        foldl (\<lambda>s a. case f s a of Inl e \<Rightarrow> s | Inr s' \<Rightarrow> s') (state (fst sys)) (dispatched [x])"
    using step_state_pure [OF Cons.prems, of call x] by (cases x) simp_all
  then show ?case
    using Cons.IH [OF red] by (cases x) simp_all
qed

lemma map_of_set_prop: "map_of (set_prop key v props) key = Some v"
  by (induction props) auto

lemma object_assign_last:
  "object_assign target [source, JObj [(key, v)]] = set_prop key v (object_assign target [source])"
  by (simp add: object_assign_def)

lemma numberStore_listener_fun:
  "numberStore_listener l s = (\<lambda>console. (console @ [My_state_just_changed l s], None))"
  by (rule ext) (simp add: numberStore_listener_def)

lemma numberStore_dispatch:
  "dispatchAction numberStore_listener a
     (\<lparr>reducer = numberStore_reducer, state = s, listeners = ls\<rparr>, console) =
   (case snd (numberStore_reducer s a console :: 'l counter_log list \<times> ('e + number option)) of
      Inr s' \<Rightarrow>
        ((\<lparr>reducer = numberStore_reducer, state = s', listeners = ls\<rparr>,
          console @ Action_just_came_in a # map (\<lambda>l. My_state_just_changed l s') ls), None)
    | Inl e \<Rightarrow>
        ((\<lparr>reducer = numberStore_reducer, state = s, listeners = ls\<rparr>,
          console @ [Action_just_came_in a]), Some e))"
  by (simp add: dispatchAction_def numberStore_reducer_def Let_def numberStore_listener_fun
      forEach_record)

section \<open>The claims\<close>

text \<open>
  C1. On a store made by \<open>createStore\<close> with a reducer that returns on every input,
  after any sequence of calls (dispatches, with subscriptions and reads of the state in
  between, and whatever the listeners do or throw) \<open>getState\<close> gives the left fold of
  the reducer over the initial state and the dispatched actions, in order. In particular
  this holds after dispatching \<open>a1..an\<close> alone; \<open>subscribe\<close> and \<open>getState\<close> leave
  the state as it is. With a reducer that may throw, the fold passes over the actions on
  which it throws: nothing but a reducer call that returned has written the state.
\<close>

theorem C1_getState_is_left_fold:
  "getState (fst (run call ops (createStore (returning r eff) initialState, w)))
     = foldl r initialState (dispatched ops) \<and>
   getState (fst (run call (map Dispatch actions) (createStore (returning r eff) initialState, w)))
     = foldl r initialState actions \<and>
   getState (fst (step call (st, w') (Subscribe callback))) = getState st \<and>
   step call (st, w') GetState = (st, w') \<and>
   getState (fst (run call' ops' (createStore (pure_reducer f) initialState', w'')))
     = foldl (\<lambda>s a. case f s a of Inl e \<Rightarrow> s | Inr s' \<Rightarrow> s') initialState' (dispatched ops')"
proof -
  have total: "getState (fst (run call ops (createStore (returning r eff) initialState, w)))
     = foldl r initialState (dispatched ops)" for ops
    using run_state_returning [of "(createStore (returning r eff) initialState, w)" r eff call ops]
    by (simp add: getState_def createStore_def)
  have "getState (fst (run call' ops' (createStore (pure_reducer f) initialState', w'')))
     = foldl (\<lambda>s a. case f s a of Inl e \<Rightarrow> s | Inr s' \<Rightarrow> s') initialState' (dispatched ops')"
    using run_state_pure [of "(createStore (pure_reducer f) initialState', w'')" f call' ops']
    by (simp add: getState_def createStore_def)
  with total show ?thesis
    by (simp add: dispatched_map_Dispatch getState_def subscribe_def)
qed

text \<open>
  C2. When the reducer throws during a dispatch, the thrown value comes out of
  \<open>dispatchAction\<close>, the store is as it was before (the state is not assigned) and no
  listener is called: the world is the one the reducer call left, whatever \<open>call\<close> is.
\<close>

theorem C2_reducer_throws:
  "snd (reducer st (state st) action w) = Inl e \<Longrightarrow>
   dispatchAction call action (st, w) = ((st, fst (reducer st (state st) action w)), Some e)"
  by (cases "reducer st (state st) action w") (simp add: dispatchAction_def)

theorem C2_witness:
  "snd (reducer (subscribe (JFun 0) walkthrough_store) (state (subscribe (JFun 0) walkthrough_store))
         JUndefined []) = Inl TypeError \<and>
   dispatchAction (js_call walkthrough_funs) JUndefined (subscribe (JFun 0) walkthrough_store, [])
     = ((subscribe (JFun 0) walkthrough_store, []), Some TypeError)"
proof -
  have h: "snd (reducer (subscribe (JFun 0) walkthrough_store)
                 (state (subscribe (JFun 0) walkthrough_store)) JUndefined ([] :: jsval list list))
           = Inl TypeError"
    by (simp add: subscribe_def walkthrough_store_def createStore_def pure_reducer_def myReducer_def)
  show ?thesis
    using h C2_reducer_throws [OF h, of "js_call walkthrough_funs"]
    by (simp add: subscribe_def walkthrough_store_def createStore_def pure_reducer_def)
qed

text \<open>
  C3 as the source has it. \<open>subscribe\<close> puts the callback at the end of the listener
  list, changes nothing else and returns \<open>undefined\<close>, not a handle: the source has no
  way to unsubscribe, and the callback is still in the list, at its place, after any
  further calls on the store.
\<close>

theorem C3_subscribe_appends_for_good:
  "listeners (subscribe callback st) = listeners st @ [callback] \<and>
   state (subscribe callback st) = state st \<and>
   reducer (subscribe callback st) = reducer st \<and>
   call_member funs ''subscribe'' arg (jst, w) = ((subscribe arg jst, w), Inr JUndefined) \<and>
   listeners (fst (run call ops (subscribe callback st, w'))) =
     listeners st @ [callback] @ subscribed ops"
  using run_listeners [of call ops "(subscribe callback st, w')"]
  by (simp add: subscribe_def call_member_def store_object_def)

text \<open>
  C3 as stated fails. The value that \<open>store.subscribe(listener)\<close> returns is
  \<open>undefined\<close>; calling it throws a TypeError and removes nothing: the listener is still
  registered and the next dispatch calls it.
\<close>

theorem C3_counterexample:
  "snd (call_member walkthrough_funs ''subscribe'' (JFun 0) (walkthrough_store, []))
     = Inr JUndefined \<and>
   js_call walkthrough_funs JUndefined (JObj []) [] = ([], Some TypeError) \<and>
   fst (call_member walkthrough_funs ''subscribe'' (JFun 0) (walkthrough_store, []))
     = (subscribe (JFun 0) walkthrough_store, []) \<and>
   listeners (subscribe (JFun 0) walkthrough_store) = [JFun 0] \<and>
   snd (fst (dispatchAction (js_call walkthrough_funs) update_bio
     (subscribe (JFun 0) walkthrough_store, []))) = [[JStr ''Our state just updated!'']]"
  by (simp add: call_member_def store_object_def dispatchAction_def subscribe_def
      walkthrough_store_def createStore_def pure_reducer_def myReducer_def update_bio_def
      object_assign_def walkthrough_funs_def)




text \<open>
  C5 as the source has it. For every state and every action whose \<open>type\<close> is none of
  the tags the reducer knows, \<open>myReducer\<close> returns its first argument, and the counter's
  reducer returns its first argument unless that argument is \<open>undefined\<close>, which it
  replaces by its default \<open>0\<close>. So a dispatch of such an action leaves \<open>getState()\<close>
  as it was, for the counter when the state is not \<open>undefined\<close>.
\<close>

theorem C5_identity_on_unrecognized:
  "(get_prop action ''type'' = Inr t \<longrightarrow> t \<noteq> JStr ''UPDATE_BIO'' \<longrightarrow> t \<noteq> JStr ''INCREMENT_NUM'' \<longrightarrow>
      myReducer s action = Inr s \<and>
      getState (fst (fst (dispatchAction call action (st\<lparr>reducer := pure_reducer myReducer\<rparr>, w))))
        = getState st) \<and>
   (type a \<noteq> ''INCREMENT'' \<longrightarrow> type a \<noteq> ''DECREMENT'' \<longrightarrow> type a \<noteq> ''INCREMENT_BY'' \<longrightarrow>
      snd (numberStore_reducer cs a console) = Inr (if cs = None then Some (Num 0) else cs) \<and>
      (getState cst \<noteq> None \<longrightarrow>
       getState (fst (fst (dispatchAction ccall a (cst\<lparr>reducer := numberStore_reducer\<rparr>, console))))
         = getState cst))"
proof (intro conjI impI)
  assume t: "get_prop action ''type'' = Inr t" "t \<noteq> JStr ''UPDATE_BIO''" "t \<noteq> JStr ''INCREMENT_NUM''"
  then show "myReducer s action = Inr s" for s
    by (simp add: myReducer_def)
  then show "getState (fst (fst (dispatchAction call action
      (st\<lparr>reducer := pure_reducer myReducer\<rparr>, w)))) = getState st"
    by (simp add: dispatchAction_state getState_def pure_reducer_def)
next
  assume a: "type a \<noteq> ''INCREMENT''" "type a \<noteq> ''DECREMENT''" "type a \<noteq> ''INCREMENT_BY''"
  then show r: "snd (numberStore_reducer cs a console) = Inr (if cs = None then Some (Num 0) else cs)"
    for cs and console :: "'l counter_log list"
    by (simp add: numberStore_reducer_def Let_def)
  assume "getState cst \<noteq> None"
  then show "getState (fst (fst (dispatchAction ccall a
      (cst\<lparr>reducer := numberStore_reducer\<rparr>, console)))) = getState cst"
    by (simp add: dispatchAction_state getState_def r)
qed

theorem C5_witness:
  "myReducer (JObj [(''num'', JNum (Num 5))]) (JObj [(''type'', JStr ''RESET'')])
     = Inr (JObj [(''num'', JNum (Num 5))]) \<and>
   getState (fst (fst (dispatchAction (js_call walkthrough_funs) (JObj [(''type'', JStr ''RESET'')])
     (walkthrough_store\<lparr>reducer := pure_reducer myReducer\<rparr>, [])))) = getState walkthrough_store \<and>
   snd (numberStore_reducer (Some (Num 4)) \<lparr>type = ''RESET'', incrementByThis = None\<rparr>
          ([] :: nat counter_log list) :: nat counter_log list \<times> (unit + number option))
     = Inr (Some (Num 4)) \<and>
   getState (fst (fst (dispatchAction numberStore_listener \<lparr>type = ''RESET'', incrementByThis = None\<rparr>
     ((createStore numberStore_reducer (Some (Num 4))
        :: (number option, counter_action, nat counter_log list, unit, nat) store)
       \<lparr>reducer := numberStore_reducer\<rparr>, [])))) = Some (Num 4)"
  using C5_identity_on_unrecognized
    [where action = "JObj [(''type'', JStr ''RESET'')]" and t = "JStr ''RESET''"
       and s = "JObj [(''num'', JNum (Num 5))]" and call = "js_call walkthrough_funs"
       and st = walkthrough_store and w = "[]"
       and a = "\<lparr>type = ''RESET'', incrementByThis = None\<rparr>" and cs = "Some (Num 4)"
       and console = "[] :: nat counter_log list"
       and cst = "createStore numberStore_reducer (Some (Num 4))
        :: (number option, counter_action, nat counter_log list, unit, nat) store"
       and ccall = numberStore_listener]
  by (simp add: createStore_def getState_def)

text \<open>
  C5 as stated ("for every state") fails for the counter's reducer: on the state
  \<open>undefined\<close> and an action of an unknown type it returns \<open>0\<close>, not its first
  argument, and a store made with the state \<open>undefined\<close> reads \<open>0\<close> after the dispatch
  of such an action.
\<close>

theorem C5_counterexample:
  "snd (numberStore_reducer None \<lparr>type = ''NO_SUCH_TYPE'', incrementByThis = None\<rparr>
          ([] :: nat counter_log list) :: nat counter_log list \<times> (unit + number option))
     = Inr (Some (Num 0)) \<and>
   getState (createStore numberStore_reducer None
     :: (number option, counter_action, nat counter_log list, unit, nat) store) = None \<and>
   getState (fst (fst (dispatchAction numberStore_listener
     \<lparr>type = ''NO_SUCH_TYPE'', incrementByThis = None\<rparr>
     (createStore numberStore_reducer None
        :: (number option, counter_action, nat counter_log list, unit, nat) store, [])))) =
     Some (Num 0)"
  by (simp add: numberStore_dispatch createStore_def getState_def)
    (simp add: numberStore_reducer_def)

text \<open>
  C6. On a store made with \<open>myReducer\<close> and the state \<open>{num: 0, name: '', age: null}\<close>,
  with any listeners subscribed, the dispatch of \<open>UPDATE_BIO {name: 'Zak', age: 17}\<close>
  and then of \<open>INCREMENT_NUM {incrementer: 5}\<close> leaves \<open>getState()\<close> at
  \<open>{num: 5, name: 'Zak', age: 17}\<close>.
\<close>

theorem C6_bio_scenario:
  "getState (fst (run call (map Subscribe ls @ [Dispatch update_bio, Dispatch increment_num])
     (createStore (pure_reducer myReducer)
        (JObj [(''num'', JNum (Num 0)), (''name'', JStr ''''), (''age'', JNull)]), w))) =
   JObj [(''num'', JNum (Num 5)), (''name'', JStr ''Zak''), (''age'', JNum (Num 17))]"
proof -
  let ?sys = "(createStore (pure_reducer myReducer)
        (JObj [(''num'', JNum (Num 0)), (''name'', JStr ''''), (''age'', JNull)]), w)"
  have "reducer (fst ?sys) = pure_reducer myReducer"
    by (simp add: createStore_def)
  from run_state_pure
    [OF this, of call "map Subscribe ls @ [Dispatch update_bio, Dispatch increment_num]"]
  have "state (fst (run call (map Subscribe ls @ [Dispatch update_bio, Dispatch increment_num])
          ?sys)) =
        foldl (\<lambda>s a. case myReducer s a of Inl e \<Rightarrow> s | Inr s' \<Rightarrow> s')
          (JObj [(''num'', JNum (Num 0)), (''name'', JStr ''''), (''age'', JNull)])
          [update_bio, increment_num]"
    by (simp add: createStore_def dispatched_append dispatched_map_Subscribe)
  then show ?thesis
    by (simp add: getState_def myReducer_def update_bio_def increment_num_def object_assign_def)
qed

text \<open>
  C7. On a store made with the counter's reducer and the state \<open>0\<close>, with any listeners
  \<open>ls\<close> subscribed, the dispatches of \<open>INCREMENT\<close>, \<open>INCREMENT_BY\<close> with the amount 3
  and \<open>DECREMENT\<close> take the state through 1 and 4 to 3. The console shows, for each
  dispatch, the reducer's entry followed by one entry of every subscribed listener, in
  the order of subscription, with the state after that dispatch. A store made with the
  state \<open>undefined\<close>, which the reducer takes for \<open>0\<close>, ends at 3 as well.
\<close>

theorem C7_counter_scenario:
  "run numberStore_listener (map Subscribe ls @ map Dispatch numberStore_actions)
     (createStore numberStore_reducer (Some (Num 0)), []) =
   (\<lparr>reducer = numberStore_reducer, state = Some (Num 3), listeners = ls\<rparr>,
    Action_just_came_in \<lparr>type = ''INCREMENT'', incrementByThis = None\<rparr>
      # map (\<lambda>l. My_state_just_changed l (Some (Num 1))) ls @
    Action_just_came_in \<lparr>type = ''INCREMENT_BY'', incrementByThis = Some (Num 3)\<rparr>
      # map (\<lambda>l. My_state_just_changed l (Some (Num 4))) ls @
    Action_just_came_in \<lparr>type = ''DECREMENT'', incrementByThis = None\<rparr>
      # map (\<lambda>l. My_state_just_changed l (Some (Num 3))) ls) \<and>
   getState (fst (run numberStore_listener (map Subscribe ls @ map Dispatch (take 1 numberStore_actions))
     (createStore numberStore_reducer (Some (Num 0)), []))) = Some (Num 1) \<and>
   getState (fst (run numberStore_listener (map Subscribe ls @ map Dispatch (take 2 numberStore_actions))
     (createStore numberStore_reducer (Some (Num 0)), []))) = Some (Num 4) \<and>
   getState (fst (run numberStore_listener (map Subscribe ls @ map Dispatch (take 3 numberStore_actions))
     (createStore numberStore_reducer (Some (Num 0)), []))) = Some (Num 3) \<and>
   getState (fst (run numberStore_listener (map Subscribe ls @ map Dispatch numberStore_actions)
     (createStore numberStore_reducer None, []))) = Some (Num 3)"
proof -
  have subs: "run numberStore_listener (map Subscribe ls)
      (createStore numberStore_reducer (Some (Num 0)), []) =
      (\<lparr>reducer = numberStore_reducer, state = Some (Num 0), listeners = ls\<rparr>, [])"
    by (simp add: run_subscribes createStore_def)
  have red: "snd (numberStore_reducer s a console) =
      Inr (if type a = ''INCREMENT'' then js_add (if s = None then Some (Num 0) else s) (Some (Num 1))
           else if type a = ''DECREMENT'' then js_sub (if s = None then Some (Num 0) else s) (Some (Num 1))
           else if type a = ''INCREMENT_BY'' then
             js_add (if s = None then Some (Num 0) else s) (incrementByThis a)
           else (if s = None then Some (Num 0) else s))" for s a console
    by (simp add: numberStore_reducer_def Let_def)
  have subs': "run numberStore_listener (map Subscribe ls)
      (createStore numberStore_reducer None, []) =
      (\<lparr>reducer = numberStore_reducer, state = None, listeners = ls\<rparr>, [])"
    by (simp add: run_subscribes createStore_def)
  show ?thesis
    unfolding run_append subs subs'
    by (simp add: run_def numberStore_actions_def numberStore_dispatch red js_add_def js_sub_def
        to_number_def getState_def)
qed

text \<open>
  C8. Over any sequence of calls the listener list only grows: it is the list before
  followed by the subscribed callbacks in order. A dispatch and a read of the state leave
  it as it is, and a \<open>subscribe\<close> adds exactly its callback at the end.
\<close>

theorem C8_listeners_only_grow:
  "listeners (fst (run call ops (st, w))) = listeners st @ subscribed ops \<and>
   length (listeners st) \<le> length (listeners (fst (run call ops (st, w)))) \<and>
   listeners (fst (step call (st, w) (Dispatch action))) = listeners st \<and>
   listeners (fst (step call (st, w) GetState)) = listeners st \<and>
   listeners (fst (step call (st, w) (Subscribe callback))) = listeners st @ [callback]"
  using run_listeners [of call ops "(st, w)"]
  by (simp add: dispatchAction_listeners subscribe_def)

text \<open>
  C9. The object that \<open>createStore\<close> returns has exactly the keys \<open>dispatchAction\<close>,
  \<open>subscribe\<close> and \<open>getState\<close>. It has no key \<open>dispatch\<close>, so \<open>store.dispatch(...)\<close>
  calls \<open>undefined\<close>: it throws a TypeError and leaves the store and the world as they
  were. The final example stops at its first \<open>store.dispatch\<close> with the state still
  \<open>{}\<close>, the listener never called and nothing logged.
\<close>

theorem C9_no_dispatch_key:
  "map fst store_object = [''dispatchAction'', ''subscribe'', ''getState''] \<and>
   map_of store_object ''dispatch'' = None \<and>
   call_member funs ''dispatch'' arg sys = (sys, Inl TypeError) \<and>
   exec walkthrough_funs walkthrough (walkthrough_store, []) =
     ((subscribe (JFun 0) walkthrough_store, []), Some TypeError) \<and>
   getState (subscribe (JFun 0) walkthrough_store) = JObj []"
  by (simp add: store_object_def call_member_def walkthrough_def subscribe_def
      walkthrough_store_def createStore_def getState_def)

text \<open>
  C10. For an action of type \<open>INCREMENT_NUM\<close>, \<open>myReducer\<close> returns a copy of the state
  whose \<open>num\<close> is the action's \<open>incrementer\<close>, whatever \<open>num\<close> was before: the amount
  is stored, not added. Two dispatches of \<open>INCREMENT_NUM {incrementer: 5}\<close> from any
  state leave \<open>num\<close> at 5.
\<close>

theorem C10_increment_num_overwrites:
  "(get_prop action ''type'' = Inr (JStr ''INCREMENT_NUM'') \<longrightarrow>
    get_prop action ''incrementer'' = Inr k \<longrightarrow>
      myReducer s action = Inr (JObj (object_assign [] [s, JObj [(''num'', k)]])) \<and>
      get_prop (JObj (object_assign [] [s, JObj [(''num'', k)]])) ''num'' = Inr k) \<and>
   get_prop (getState (fst (run call [Dispatch increment_num, Dispatch increment_num]
      (createStore (pure_reducer myReducer) s0, w)))) ''num'' = Inr (JNum (Num 5))"
proof (intro conjI impI)
  assume "get_prop action ''type'' = Inr (JStr ''INCREMENT_NUM'')"
    and "get_prop action ''incrementer'' = Inr k"
  then show "myReducer s action = Inr (JObj (object_assign [] [s, JObj [(''num'', k)]]))"
    by (simp add: myReducer_def)
next
  show "get_prop (JObj (object_assign [] [s, JObj [(''num'', k)]])) ''num'' = Inr k"
    by (simp add: object_assign_last map_of_set_prop)
next
  have "reducer (fst (createStore (pure_reducer myReducer) s0 :: (jsval, jsval, 'a, js_error, 'b) store, w))
          = pure_reducer myReducer"
    by (simp add: createStore_def)
  from run_state_pure [OF this, of call "[Dispatch increment_num, Dispatch increment_num]"]
  have "getState (fst (run call [Dispatch increment_num, Dispatch increment_num]
      (createStore (pure_reducer myReducer) s0, w))) =
      JObj (object_assign [] [JObj (object_assign [] [s0, JObj [(''num'', JNum (Num 5))]]),
         JObj [(''num'', JNum (Num 5))]])"
    by (simp add: getState_def createStore_def myReducer_def increment_num_def)
  then show "get_prop (getState (fst (run call [Dispatch increment_num, Dispatch increment_num]
      (createStore (pure_reducer myReducer) s0, w)))) ''num'' = Inr (JNum (Num 5))"
    by (simp add: object_assign_last map_of_set_prop)
qed

theorem C10_witness:
  "myReducer (JObj [(''num'', JNum (Num 5))]) increment_num = Inr (JObj [(''num'', JNum (Num 5))]) \<and>
   get_prop (JObj [(''num'', JNum (Num 5))]) ''num'' = Inr (JNum (Num 5))"
  using C10_increment_num_overwrites
    [of increment_num "JNum (Num 5)" "JObj [(''num'', JNum (Num 5))]", THEN conjunct1]
  by (simp add: increment_num_def object_assign_def)

end
